theory Spec2Isabelle
  imports Main
begin

section \<open>JavaScript strings\<close>

text \<open>
  A JavaScript string is modelled as a \<^typ>\<open>string\<close> whose characters are the code
  units \<open>U+0000\<close> to \<open>U+00FF\<close> (Latin-1). The file covers the string methods the
  extension calls: \<open>toLowerCase\<close>, \<open>replace(/\s+/g, sep)\<close>, \<open>trim\<close>,
  \<open>includes\<close> and \<open>split('\n')\<close>. Template literals are written as concatenations.
\<close>

definition NL :: string where
  "NL = [CHR 0x0A]"

definition DQ :: string where
  "DQ = [CHR 0x22]"

text \<open>
  The characters matched by the regular expression class \<open>\s\<close> and removed by
  \<open>trim\<close>: tab, line feed, vertical tab, form feed, carriage return, space and the
  no-break space (the members of the class below \<open>U+0100\<close>).
\<close>

definition is_ws :: "char \<Rightarrow> bool" where
  "is_ws c = (c = CHR 0x09 \<or> c = CHR 0x0A \<or> c = CHR 0x0B \<or> c = CHR 0x0C \<or>
              c = CHR 0x0D \<or> c = CHR 0x20 \<or> c = CHR 0xA0)"

text \<open>
  \<open>toLowerCase\<close>: the upper-case letters below \<open>U+0100\<close> are \<open>A\<close> to \<open>Z\<close> and
  \<open>U+00C0\<close> to \<open>U+00DE\<close> without the multiplication sign \<open>U+00D7\<close>; each has its
  lower-case letter 32 code points further.
\<close>

definition lower_char :: "char \<Rightarrow> char" where
  "lower_char c =
     (let n = (of_char c :: nat)
      in if (65 \<le> n \<and> n \<le> 90) \<or> (192 \<le> n \<and> n \<le> 214) \<or> (216 \<le> n \<and> n \<le> 222)
         then char_of (n + 32) else c)"

definition toLowerCase :: "string \<Rightarrow> string" where
  "toLowerCase s = map lower_char s"

text \<open>
  \<open>s.replace(/\s+/g, sep)\<close>: every maximal run of white space becomes one copy of
  \<open>sep\<close>.
\<close>

function replace_ws :: "string \<Rightarrow> string \<Rightarrow> string" where
  "replace_ws sep [] = []"
| "replace_ws sep (c # cs) =
     (if is_ws c then sep @ replace_ws sep (dropWhile is_ws cs)
      else c # replace_ws sep cs)"
  by pat_completeness auto
termination
  by (relation "measure (\<lambda>(sep, s). length s)")
     (auto simp: le_imp_less_Suc length_dropWhile_le)

text \<open>\<open>s.trim()\<close> removes white space at both ends.\<close>

definition trim :: "string \<Rightarrow> string" where
  "trim s = rev (dropWhile is_ws (rev (dropWhile is_ws s)))"

text \<open>\<open>s.includes(t)\<close>: \<open>t\<close> occurs in \<open>s\<close> as a contiguous substring.\<close>

fun starts_with :: "string \<Rightarrow> string \<Rightarrow> bool" where
  "starts_with s [] = True"
| "starts_with [] (d # t) = False"
| "starts_with (c # s) (d # t) = (c = d \<and> starts_with s t)"

fun includes_str :: "string \<Rightarrow> string \<Rightarrow> bool" where
  "includes_str [] t = (t = [])"
| "includes_str (c # s) t = (starts_with (c # s) t \<or> includes_str s t)"

text \<open>\<open>s.split('\n')\<close>: the pieces between line feeds; never the empty array.\<close>

fun split_nl :: "string \<Rightarrow> string list" where
  "split_nl [] = [[]]"
| "split_nl (c # cs) =
     (if c = CHR 0x0A then [] # split_nl cs
      else (case split_nl cs of
              l # ls \<Rightarrow> (c # l) # ls
            | [] \<Rightarrow> [[c]]))"

text \<open>
  A value that may be \<open>undefined\<close> is an option. Inside a template literal,
  \<open>undefined\<close> prints as the text \<open>undefined\<close>.
\<close>

definition interp :: "string option \<Rightarrow> string" where
  "interp v = (case v of None \<Rightarrow> ''undefined'' | Some s \<Rightarrow> s)"


section \<open>Errors, external processes and the file system\<close>

text \<open>
  A thrown JavaScript error is observed by the extension only through its \<open>message\<close>.
  The two messages below are the ones the engine gives to the type errors the wizard's
  operations can raise themselves: destructuring an \<open>undefined\<close> payload, and
  reading a property of \<open>undefined\<close>.
\<close>

datatype js_error = JsError (message: string)

definition destructure_error :: "string \<Rightarrow> js_error" where
  "destructure_error field =
     JsError (''Cannot destructure property '' @ [CHR 0x27] @ field @ [CHR 0x27] @
              '' of '' @ [CHR 0x27] @ ''data'' @ [CHR 0x27] @ '' as it is undefined.'')"

definition property_error :: "string \<Rightarrow> js_error" where
  "property_error prop =
     JsError (''Cannot read properties of undefined (reading '' @ [CHR 0x27] @ prop @
              [CHR 0x27] @ '')'')"

text \<open>
  The error object that \<open>child_process.exec\<close> hands to its callback: the exit code
  (absent when the process was killed), whether the process was killed (as it is when
  the \<open>timeout\<close> option expires) and the message.
\<close>

datatype exec_error = ExecError (exit_code: "nat option") (killed: bool) (exec_message: string)

text \<open>
  The outcome of one \<open>exec\<close> call: either the call itself throws, or the callback
  runs with an optional error and the standard output and standard error texts.
\<close>

datatype exec_result =
    ExecThrew js_error
  | ExecDone "exec_error option" string string

record fs_file =
  content :: string
  mode :: nat

record launch =
  cmdline :: string
  timeout :: "nat option"
  cwd :: "string option"

datatype git_key = UserName | UserEmail

text \<open>
  The part of the machine the extension reads and writes: directories and files by
  path, the clipboard, the Git configuration seen from the workspace folder, and the
  log of the commands launched so far.
\<close>

record world =
  dirs :: "string \<rightharpoonup> nat"
  files :: "string \<rightharpoonup> fs_file"
  clipboard :: "string option"
  gitcfg :: "git_key \<rightharpoonup> string"
  launched :: "launch list"

text \<open>
  What the code does not decide is a parameter: the \<open>.ssh\<close> directory of the user
  (\<open>path.join(os.homedir(), '.ssh')\<close>), \<open>path.join\<close> and \<open>path.basename\<close>, which file-system
  calls fail and with which message, and what an external program does to the world.
\<close>

record env =
  sshDir :: string
  path_join :: "string \<Rightarrow> string \<Rightarrow> string"
  path_basename :: "string \<Rightarrow> string"
  mkdir_error :: "string \<Rightarrow> string option"
  read_error :: "string \<Rightarrow> string option"
  write_error :: "string \<Rightarrow> string option"
  clipboard_error :: "string option \<Rightarrow> string option"
  process :: "launch \<Rightarrow> world \<Rightarrow> exec_result \<times> world"

definition existsSync :: "world \<Rightarrow> string \<Rightarrow> bool" where
  "existsSync w p = (files w p \<noteq> None \<or> dirs w p \<noteq> None)"


definition readFileSync :: "env \<Rightarrow> world \<Rightarrow> string \<Rightarrow> js_error + string" where
  "readFileSync e w p =
     (case read_error e p of
        Some msg \<Rightarrow> Inl (JsError msg)
      | None \<Rightarrow>
          (case files w p of
             None \<Rightarrow> Inl (JsError (''ENOENT: no such file or directory, open '' @ [CHR 0x27] @ p @ [CHR 0x27]))
           | Some f \<Rightarrow> Inr (content f)))"

text \<open>
  \<open>fs.writeFileSync(path, data, {mode})\<close> replaces the content; the mode is used
  only when the call creates the file.
\<close>

definition writeFileSync :: "env \<Rightarrow> world \<Rightarrow> string \<Rightarrow> string \<Rightarrow> nat \<Rightarrow> js_error + world" where
  "writeFileSync e w p d m =
     (case write_error e p of
        Some msg \<Rightarrow> Inl (JsError msg)
      | None \<Rightarrow>
          Inr (w\<lparr>files := (files w)(p \<mapsto>
                 (case files w p of
                    None \<Rightarrow> \<lparr>content = d, mode = m\<rparr>
                  | Some f \<Rightarrow> f\<lparr>content := d\<rparr>))\<rparr>))"

text \<open>\<open>exec(command, options, callback)\<close>: the launch is logged, the program runs.\<close>

definition exec :: "env \<Rightarrow> launch \<Rightarrow> world \<Rightarrow> exec_result \<times> world" where
  "exec e l w =
     (case process e l w of
        (r, w') \<Rightarrow> (r, w'\<lparr>launched := launched w @ [l]\<rparr>))"

section \<open>The SSH wizard (class SSHManager)\<close>

text \<open>
  The payload of a message from the wizard page; a field the page did not set is
  \<open>undefined\<close>.
\<close>

record payload =
  identityName :: "string option"
  email :: "string option"
  provider :: "string option"
  keyName :: "string option"
  publicKey :: "string option"
  hostUrl :: "string option"
  hostAlias :: "string option"


text \<open>
  The \<open>data\<close> objects the wizard posts back, one constructor for each shape:
  \<^item> \<open>KeyOk keyName publicKey provider\<close> is \<open>{success: true, keyName, publicKey, provider}\<close>;
  \<^item> \<open>ConfigOk hostAlias cloneExample\<close> is \<open>{success: true, hostAlias, cloneExample}\<close>;
  \<^item> \<open>TestResult success output\<close> is \<open>{success, output}\<close>;
  \<^item> \<open>CopyOk\<close> is \<open>{success: true}\<close>;
  \<^item> \<open>Failure error\<close> is \<open>{success: false, error}\<close>;
  \<^item> \<open>ErrorOnly error\<close> is \<open>{error}\<close>.
\<close>

datatype reply_data =
    KeyOk string string "string option"
  | ConfigOk string string
  | TestResult bool string
  | CopyOk
  | Failure string
  | ErrorOnly string

datatype reply = Reply string reply_data



fun output_of :: "reply_data \<Rightarrow> string option" where
  "output_of (TestResult s out) = Some out"
| "output_of d = None"


definition mode_0o600 :: nat where
  "mode_0o600 = 6 * 64"

subsection \<open>updateSSHConfig\<close>

definition configPath :: "env \<Rightarrow> string" where
  "configPath e = path_join e (sshDir e) ''config''"

definition readConfig :: "env \<Rightarrow> world \<Rightarrow> js_error + string" where
  "readConfig e w =
     (if existsSync w (configPath e) then readFileSync e w (configPath e) else Inr [])"

definition make_hostAlias :: "string option \<Rightarrow> string \<Rightarrow> string" where
  "make_hostAlias prov name = interp prov @ ''-'' @ replace_ws ''-'' (toLowerCase name)"

definition newConfig :: "payload \<Rightarrow> string \<Rightarrow> string" where
  "newConfig d alias =
     NL @ ''# '' @ interp (identityName d) @ '' - '' @ interp (provider d) @ NL @
     ''Host '' @ alias @ NL @
     ''    HostName '' @ interp (hostUrl d) @ NL @
     ''    User git'' @ NL @
     ''    IdentityFile ~/.ssh/'' @ interp (keyName d) @ NL @
     ''    IdentitiesOnly yes'' @ NL @
     NL"

definition cloneExample :: "string \<Rightarrow> string" where
  "cloneExample alias = ''git clone git@'' @ alias @ '':username/repo.git''"

definition updateSSHConfig :: "env \<Rightarrow> payload option \<Rightarrow> world \<Rightarrow> js_error + world \<times> reply list" where
  "updateSSHConfig e data w =
     (case data of
        None \<Rightarrow> Inl (destructure_error ''identityName'')
      | Some d \<Rightarrow>
          (case readConfig e w of
             Inl err \<Rightarrow> Inr (w, [Reply ''configUpdated'' (Failure (message err))])
           | Inr configContent \<Rightarrow>
               (case identityName d of
                  None \<Rightarrow> Inr (w, [Reply ''configUpdated''
                                      (Failure (message (property_error ''toLowerCase'')))])
                | Some name \<Rightarrow>
                    (let alias = make_hostAlias (provider d) name
                     in case (if \<not> includes_str configContent (''Host '' @ alias)
                              then writeFileSync e w (configPath e)
                                     (configContent @ newConfig d alias) mode_0o600
                              else Inr w) of
                          Inl err \<Rightarrow> Inr (w, [Reply ''configUpdated'' (Failure (message err))])
                        | Inr w' \<Rightarrow>
                            Inr (w', [Reply ''configUpdated''
                                        (ConfigOk alias (cloneExample alias))])))))"

subsection \<open>generateSSHKey\<close>





subsection \<open>testSSHConnection\<close>

definition success_phrase :: string where
  "success_phrase = ''successfully authenticated''"

definition success_phrase_long :: string where
  "success_phrase_long = ''You'' @ [CHR 0x27] @ ''ve successfully authenticated''"

definition testSSHConnection :: "env \<Rightarrow> payload option \<Rightarrow> world \<Rightarrow> js_error + world \<times> reply list" where
  "testSSHConnection e data w =
     (case data of
        None \<Rightarrow> Inl (destructure_error ''hostAlias'')
      | Some d \<Rightarrow>
          (case exec e \<lparr>cmdline = ''ssh -T git@'' @ interp (hostAlias d),
                         timeout = Some 10000, cwd = None\<rparr> w of
             (ExecThrew err, w') \<Rightarrow>
               Inr (w', [Reply ''connectionTested'' (Failure (message err))])
           | (ExecDone error stdout stderr, w') \<Rightarrow>
               (let output = stdout @ stderr;
                    success = (includes_str output success_phrase \<or>
                               includes_str output success_phrase_long)
                in Inr (w', [Reply ''connectionTested'' (TestResult success (trim output))]))))"

subsection \<open>copyPublicKey\<close>


subsection \<open>The message handler of runSSHWizard\<close>



section \<open>The identity list (class GitIdentityManager)\<close>

text \<open>
  The stored identities are the array under the settings key \<open>identities\<close>, read by
  \<open>loadIdentities\<close> and replaced as a whole by \<open>saveIdentities\<close>. An operation
  returns the new list, the notifications it showed and, when its promise rejects, the
  error. The answers of the user to the input boxes and to the confirmation, the clock
  and a failure of \<open>saveIdentities\<close> are parameters.
\<close>

record identity =
  name :: string
  username :: string
  email :: string
  identity_id :: int

datatype notice = ErrorNotice string | InfoNotice string

definition has_name :: "string \<Rightarrow> identity \<Rightarrow> bool" where
  "has_name n i = (name i = n)"

definition addIdentity ::
  "string option \<Rightarrow> string option \<Rightarrow> string option \<Rightarrow> int \<Rightarrow> string option \<Rightarrow>
   identity list \<Rightarrow> identity list \<times> notice list \<times> js_error option" where
  "addIdentity name_box username_box email_box now save_error stored =
     (case name_box of
        None \<Rightarrow> (stored, [], None)
      | Some n \<Rightarrow>
          if n = [] then (stored, [], None)
          else
            (case username_box of
               None \<Rightarrow> (stored, [], None)
             | Some u \<Rightarrow>
                 if u = [] then (stored, [], None)
                 else
                   (case email_box of
                      None \<Rightarrow> (stored, [], None)
                    | Some m \<Rightarrow>
                        if m = [] then (stored, [], None)
                        else if find (has_name n) stored \<noteq> None
                        then (stored, [ErrorNotice ''Identity with this name already exists''], None)
                        else
                          (case save_error of
                             Some msg \<Rightarrow> (stored, [], Some (JsError msg))
                           | None \<Rightarrow>
                               (stored @ [\<lparr>name = n, username = u, email = m, identity_id = now\<rparr>],
                                [InfoNotice (''Added identity: '' @ n)], None)))))"

text \<open>
  The argument of \<open>deleteIdentity\<close> is a tree item of the side bar or an identity
  picked from the command palette. The code reads three properties of it: \<open>identity\<close>
  (the identity a tree item carries; here the \<open>name\<close> of that identity), its own
  \<open>name\<close> and, in the first version of the extension, its \<open>label\<close>.
\<close>

record delete_arg =
  arg_identity :: "string option option"
  arg_name :: "string option"
  arg_label :: "string option"

definition identityData_name :: "delete_arg \<Rightarrow> string option" where
  "identityData_name a = (case arg_identity a of Some n \<Rightarrow> n | None \<Rightarrow> arg_name a)"

text \<open>\<open>deleteIdentity\<close> of the extension with the wizard.\<close>

definition deleteIdentity ::
  "delete_arg option \<Rightarrow> string option \<Rightarrow> string option \<Rightarrow>
   identity list \<Rightarrow> identity list \<times> notice list \<times> js_error option" where
  "deleteIdentity arg confirm save_error stored =
     (case arg of
        None \<Rightarrow> (stored, [], Some (property_error ''identity''))
      | Some a \<Rightarrow>
          (case identityData_name a of
             None \<Rightarrow> (stored, [ErrorNotice ''Invalid identity object for deletion''], None)
           | Some n \<Rightarrow>
               if n = []
               then (stored, [ErrorNotice ''Invalid identity object for deletion''], None)
               else if confirm = Some ''Delete''
               then
                 (case save_error of
                    Some msg \<Rightarrow>
                      (stored, [ErrorNotice (''Failed to delete identity: '' @ msg)], None)
                  | None \<Rightarrow>
                      (filter (\<lambda>i. name i \<noteq> n) stored,
                       [InfoNotice (''Deleted identity: '' @ n)], None))
               else (stored, [], None)))"

text \<open>\<open>deleteIdentity\<close> of \<open>extension.js\<close>, which filters on the label of the tree item.\<close>

definition deleteIdentity_label ::
  "delete_arg option \<Rightarrow> string option \<Rightarrow> string option \<Rightarrow>
   identity list \<Rightarrow> identity list \<times> notice list \<times> js_error option" where
  "deleteIdentity_label arg confirm save_error stored =
     (case arg of
        None \<Rightarrow> (stored, [], Some (property_error ''label''))
      | Some a \<Rightarrow>
          if confirm = Some ''Delete''
          then
            (case save_error of
               Some msg \<Rightarrow> (stored, [], Some (JsError msg))
             | None \<Rightarrow>
                 (filter (\<lambda>i. Some (name i) \<noteq> arg_label a) stored,
                  [InfoNotice (''Deleted identity: '' @ interp (arg_label a))], None))
          else (stored, [], None))"

subsection \<open>Reading and writing the Git identity\<close>








section \<open>The programs outside the extension\<close>

subsection \<open>The Git command line under a POSIX shell\<close>

text \<open>
  The two command lines of the identity manager are run by \<open>/bin/sh\<close>. The model
  below covers the fragment they are written in: one or two \<open>git config\<close> commands
  joined by \<open>&&\<close>, each reading \<open>user.name\<close> or \<open>user.email\<close> or setting it to
  a double-quoted word. Inside double quotes the shell gives a meaning to the double
  quote, the backslash, the dollar sign and the backquote; a word with one of them is
  outside the fragment (\<open>None\<close>), as is every other command line. \<open>git config key\<close>
  prints the value and a line feed, or fails with exit code 1 when the key has no value;
  \<open>git config key value\<close> stores the value as it is.
\<close>

definition sh_special :: "char \<Rightarrow> bool" where
  "sh_special c = (c = CHR 0x22 \<or> c = CHR 0x5C \<or> c = CHR 0x24 \<or> c = CHR 0x60)"

fun dq_word :: "string \<Rightarrow> (string \<times> string) option" where
  "dq_word [] = None"
| "dq_word (c # cs) =
     (if c = CHR 0x22 then Some ([], cs)
      else if sh_special c then None
      else (case dq_word cs of
              None \<Rightarrow> None
            | Some (v, rest) \<Rightarrow> Some (c # v, rest)))"

datatype git_cmd = GitGet git_key | GitSet git_key string

definition parse_key :: "string \<Rightarrow> (git_key \<times> string) option" where
  "parse_key s =
     (if starts_with s ''git config user.name'' then Some (UserName, drop 20 s)
      else if starts_with s ''git config user.email'' then Some (UserEmail, drop 21 s)
      else None)"

definition parse_git :: "string \<Rightarrow> (git_cmd \<times> string) option" where
  "parse_git s =
     (case parse_key s of
        None \<Rightarrow> None
      | Some (k, r) \<Rightarrow>
          if starts_with r ('' '' @ DQ)
          then (case dq_word (drop 2 r) of
                  None \<Rightarrow> None
                | Some (v, rest) \<Rightarrow> Some (GitSet k v, rest))
          else Some (GitGet k, r))"

fun run_git :: "git_cmd \<Rightarrow> (git_key \<rightharpoonup> string) \<Rightarrow> bool \<times> string \<times> (git_key \<rightharpoonup> string)" where
  "run_git (GitGet k) g = (case g k of None \<Rightarrow> (False, [], g) | Some v \<Rightarrow> (True, v @ NL, g))"
| "run_git (GitSet k v) g = (True, [], g(k \<mapsto> v))"

definition command_failed :: "string \<Rightarrow> exec_error" where
  "command_failed c = ExecError (Some 1) False (''Command failed: '' @ c @ NL)"

definition git_shell ::
  "string \<Rightarrow> (git_key \<rightharpoonup> string) \<Rightarrow> (exec_result \<times> (git_key \<rightharpoonup> string)) option" where
  "git_shell c g =
     (case parse_git c of
        None \<Rightarrow> None
      | Some (c1, r1) \<Rightarrow>
          if r1 = []
          then (case run_git c1 g of
                  (ok1, out1, g1) \<Rightarrow>
                    Some (ExecDone (if ok1 then None else Some (command_failed c)) out1 [], g1))
          else if starts_with r1 '' && ''
          then (case parse_git (drop 4 r1) of
                  None \<Rightarrow> None
                | Some (c2, r2) \<Rightarrow>
                    if r2 = []
                    then (case run_git c1 g of
                            (ok1, out1, g1) \<Rightarrow>
                              if ok1
                              then (case run_git c2 g1 of
                                      (ok2, out2, g2) \<Rightarrow>
                                        Some (ExecDone (if ok2 then None
                                                        else Some (command_failed c))
                                                (out1 @ out2) [], g2))
                              else Some (ExecDone (Some (command_failed c)) out1 [], g1))
                    else None)
          else None)"


subsection \<open>The SSH client configuration\<close>

text \<open>
  What \<open>ssh\<close> reads in the configuration file: a line whose first word is the keyword
  \<open>Host\<close> (in any case) opens the entry of the host patterns that follow it. The file
  has an entry for an alias when the alias is one of the patterns of such a line.
\<close>

fun split_ws :: "string \<Rightarrow> string list" where
  "split_ws [] = [[]]"
| "split_ws (c # cs) =
     (if is_ws c then [] # split_ws cs
      else (case split_ws cs of
              l # ls \<Rightarrow> (c # l) # ls
            | [] \<Rightarrow> [[c]]))"

definition words_of :: "string \<Rightarrow> string list" where
  "words_of s = filter (\<lambda>x. x \<noteq> []) (split_ws s)"

definition host_line_for :: "string \<Rightarrow> string \<Rightarrow> bool" where
  "host_line_for alias l =
     (case words_of l of
        [] \<Rightarrow> False
      | k # patterns \<Rightarrow> toLowerCase k = ''host'' \<and> List.member patterns alias)"

definition has_host_entry :: "string \<Rightarrow> string \<Rightarrow> bool" where
  "has_host_entry cfg alias = list_ex (host_line_for alias) (split_nl cfg)"

subsection \<open>Trimming at the end only\<close>


section \<open>Sample environments\<close>

text \<open>
  A machine on which no call fails: paths are joined with a slash, and the external
  program is Git as far as \<open>git_shell\<close> describes it (another command line ends
  with exit code 127 and no output).
\<close>

definition git_process :: "launch \<Rightarrow> world \<Rightarrow> exec_result \<times> world" where
  "git_process l w =
     (case git_shell (cmdline l) (gitcfg w) of
        Some (r, g) \<Rightarrow> (r, w\<lparr>gitcfg := g\<rparr>)
      | None \<Rightarrow>
          (ExecDone (Some (ExecError (Some 127) False (''Command failed: '' @ cmdline l @ NL)))
             [] [], w))"

definition sample_env :: env where
  "sample_env =
     \<lparr>sshDir = ''/home/dev/.ssh'',
      path_join = (\<lambda>a b. a @ ''/'' @ b),
      path_basename = (\<lambda>p. rev (takeWhile (\<lambda>c. c \<noteq> CHR ''/'') (rev p))),
      mkdir_error = (\<lambda>p. None),
      read_error = (\<lambda>p. None),
      write_error = (\<lambda>p. None),
      clipboard_error = (\<lambda>v. None),
      process = git_process\<rparr>"

definition empty_world :: world where
  "empty_world =
     \<lparr>dirs = Map.empty, files = Map.empty, clipboard = None, gitcfg = Map.empty,
      launched = []\<rparr>"

text \<open>An external program that ends with the given outcome and touches nothing.\<close>

definition ends_with :: "exec_result \<Rightarrow> launch \<Rightarrow> world \<Rightarrow> exec_result \<times> world" where
  "ends_with r l w = (r, w)"


text \<open>
  The payload of the wizard's scenario: identity \<open>Work\<close> at GitHub, and a
  configuration file that names another host, \<open>github-workstation\<close>.
\<close>

definition work_payload :: payload where
  "work_payload =
     \<lparr>identityName = Some ''Work'', payload.email = Some ''a@b.com'', provider = Some ''github'',
      keyName = Some ''id_rsa_work'', publicKey = None, hostUrl = Some ''github.com'',
      hostAlias = None\<rparr>"

definition workstation_config :: string where
  "workstation_config =
     ''Host github-workstation'' @ NL @ ''    HostName github.com'' @ NL @
     ''    User git'' @ NL"

definition workstation_world :: world where
  "workstation_world =
     empty_world\<lparr>files := [''/home/dev/.ssh/config'' \<mapsto>
                    \<lparr>content = workstation_config, mode = 384\<rparr>]\<rparr>"

text \<open>
  The outcomes of the SSH probe used below: the greeting GitHub prints after a
  successful authentication, a probe killed when the time limit expires, a refused
  connection (exit code 255) and the usual exit code 1.
\<close>

definition github_banner :: string where
  "github_banner =
     ''Hi dev! You'' @ [CHR 0x27] @
     ''ve successfully authenticated, but GitHub does not provide shell access.''"

definition timed_out :: exec_error where
  "timed_out = ExecError None True (''Command failed: ssh -T git@github-work'' @ NL)"

definition refused :: exec_error where
  "refused = ExecError (Some 255) False (''Command failed: ssh -T git@github-work'' @ NL)"

definition refused_text :: string where
  "refused_text = ''ssh: connect to host github.com port 22: Connection refused''"


definition test_payload :: payload where
  "test_payload = work_payload\<lparr>hostAlias := Some ''github-work''\<rparr>"

definition probe :: launch where
  "probe = \<lparr>cmdline = ''ssh -T git@github-work'', timeout = Some 10000, cwd = None\<rparr>"







text \<open>Stored identities and arguments of \<open>deleteIdentity\<close>.\<close>

definition work_identity :: identity where
  "work_identity = \<lparr>name = ''Work'', username = ''alice'', email = ''a@b.com'', identity_id = 1700000000000\<rparr>"

definition home_identity :: identity where
  "home_identity = \<lparr>name = ''Home'', username = ''al'', email = ''al@home.org'', identity_id = 1700000000001\<rparr>"


definition work_item :: delete_arg where
  "work_item = \<lparr>arg_identity = Some (Some ''Work''), arg_name = None, arg_label = Some ''Work''\<rparr>"

definition play_item :: delete_arg where
  "play_item = \<lparr>arg_identity = None, arg_name = Some ''Play'', arg_label = Some ''Play''\<rparr>"



section \<open>Substrings\<close>

lemma starts_with_append: "starts_with (t @ r) t"
  by (induction t) auto

lemma includes_str_starts: "starts_with s t \<Longrightarrow> includes_str s t"
  by (cases s; cases t) auto

lemma includes_str_append_left: "includes_str s t \<Longrightarrow> includes_str (p @ s) t"
  by (induction p) auto

lemma includes_str_middle: "includes_str (p @ t @ q) t"
  by (simp add: includes_str_append_left includes_str_starts starts_with_append)

lemma starts_with_iff: "starts_with s t \<longleftrightarrow> (\<exists>r. s = t @ r)"
  by (induction s t rule: starts_with.induct) auto

lemma includes_str_iff: "includes_str s t \<longleftrightarrow> (\<exists>p q. s = p @ t @ q)"
proof (induction s)
  case Nil
  then show ?case by auto
next
  case (Cons c s)
  show ?case
  proof
    assume "includes_str (c # s) t"
    then consider "starts_with (c # s) t" | "includes_str s t" by auto
    then show "\<exists>p q. c # s = p @ t @ q"
    proof cases
      case 1
      then obtain r where "c # s = t @ r" by (auto simp: starts_with_iff)
      then have "c # s = [] @ t @ r" by simp
      then show ?thesis by blast
    next
      case 2
      then obtain p q where "s = p @ t @ q" using Cons.IH by blast
      then have "c # s = (c # p) @ t @ q" by simp
      then show ?thesis by blast
    qed
  next
    assume "\<exists>p q. c # s = p @ t @ q"
    then obtain p q where pq: "c # s = p @ t @ q" by blast
    show "includes_str (c # s) t"
      unfolding pq by (rule includes_str_middle)
  qed
qed


section \<open>updateSSHConfig: the configuration file\<close>


lemma updateSSHConfig_present:
  assumes "identityName d = Some nm" and "readConfig e w = Inr c"
    and "includes_str c (''Host '' @ make_hostAlias (provider d) nm)"
  shows "updateSSHConfig e (Some d) w =
         Inr (w, [Reply ''configUpdated''
                    (ConfigOk (make_hostAlias (provider d) nm)
                       (cloneExample (make_hostAlias (provider d) nm)))])"
  using assms by (simp add: updateSSHConfig_def Let_def)






lemma alias_work: "make_hostAlias (Some ''github'') ''Work'' = ''github-work''"
  by code_simp






lemma workstation_includes: "includes_str workstation_config ''Host github-work''"
  by code_simp

lemma workstation_no_entry: "\<not> has_host_entry workstation_config ''github-work''"
  by code_simp

lemma workstation_entry: "has_host_entry workstation_config ''github-workstation''"
  by code_simp

text \<open>
  Claim C9. The test for an existing entry is a substring test over the whole file. With
  a configuration whose only entry is \<open>Host github-workstation\<close>, the text
  \<open>Host github-work\<close> occurs in the file, no entry of the file is for
  \<open>github-work\<close>, and \<open>updateSSHConfig\<close> for the identity \<open>Work\<close> at GitHub
  writes nothing and replies with the success for the alias \<open>github-work\<close>.
\<close>

theorem updateSSHConfig_prefix_collision:
  "includes_str workstation_config ''Host github-work''
   \<and> \<not> has_host_entry workstation_config ''github-work''
   \<and> has_host_entry workstation_config ''github-workstation''
   \<and> readConfig sample_env workstation_world = Inr workstation_config
   \<and> updateSSHConfig sample_env (Some work_payload) workstation_world =
       Inr (workstation_world,
            [Reply ''configUpdated''
               (ConfigOk ''github-work'' ''git clone git@github-work:username/repo.git'')])"
proof -
  have rd: "readConfig sample_env workstation_world = Inr workstation_config"
    by (simp add: readConfig_def existsSync_def readFileSync_def configPath_def
          sample_env_def workstation_world_def)
  have n: "identityName work_payload = Some ''Work''" by (simp add: work_payload_def)
  have a: "make_hostAlias (provider work_payload) ''Work'' = ''github-work''"
    by (simp add: work_payload_def alias_work)
  have "includes_str workstation_config
          (''Host '' @ make_hostAlias (provider work_payload) ''Work'')"
    unfolding a using workstation_includes by simp
  from updateSSHConfig_present [OF n rd this]
  have "updateSSHConfig sample_env (Some work_payload) workstation_world =
       Inr (workstation_world,
            [Reply ''configUpdated''
               (ConfigOk ''github-work'' ''git clone git@github-work:username/repo.git'')])"
    unfolding a by (simp add: cloneExample_def)
  with rd workstation_includes workstation_no_entry workstation_entry
  show ?thesis by blast
qed

section \<open>testSSHConnection: the probe\<close>

lemma long_phrase_has_short:
  assumes "includes_str s success_phrase_long"
  shows "includes_str s success_phrase"
proof -
  obtain p q where "s = p @ success_phrase_long @ q"
    using assms by (auto simp: includes_str_iff)
  then have "s = (p @ ''You'' @ [CHR 0x27] @ ''ve '') @ success_phrase @ q"
    by (simp add: success_phrase_long_def success_phrase_def)
  then show ?thesis by (metis includes_str_middle)
qed


lemma exec_process:
  "process e l w = (r, w0) \<Longrightarrow> exec e l w = (r, w0\<lparr>launched := launched w @ [l]\<rparr>)"
  by (simp add: exec_def)

lemma testSSHConnection_done:
  assumes "exec e \<lparr>cmdline = ''ssh -T git@'' @ interp (hostAlias d),
                    timeout = Some 10000, cwd = None\<rparr> w = (ExecDone err out errout, w')"
  shows "testSSHConnection e (Some d) w =
         Inr (w', [Reply ''connectionTested''
                     (TestResult (includes_str (out @ errout) success_phrase)
                        (trim (out @ errout)))])"
  using assms long_phrase_has_short [of "out @ errout"]
  by (auto simp: testSSHConnection_def Let_def)

lemma testSSHConnection_threw:
  assumes "exec e \<lparr>cmdline = ''ssh -T git@'' @ interp (hostAlias d),
                    timeout = Some 10000, cwd = None\<rparr> w = (ExecThrew err, w')"
  shows "testSSHConnection e (Some d) w =
         Inr (w', [Reply ''connectionTested'' (Failure (message err))])"
  using assms by (simp add: testSSHConnection_def)

lemma probe_cmdline:
  "\<lparr>cmdline = ''ssh -T git@'' @ interp (hostAlias test_payload),
    timeout = Some 10000, cwd = None\<rparr> = probe"
  by (simp add: test_payload_def probe_def interp_def)


text \<open>
  Claim C3, as amended. For every outcome of the probe \<open>ssh -T git@hostAlias\<close>
  (launched with a time limit of 10000 ms), \<open>testSSHConnection\<close> returns normally with
  one \<open>connectionTested\<close> reply. When the callback runs, \<open>success\<close> is true exactly
  when the standard output followed by the standard error contains
  \<open>successfully authenticated\<close>, whatever the error of the process (exit code, or
  killed at the time limit), and \<open>output\<close> is that text with the white space at both
  ends removed. When the launch itself throws, the reply is the failure with the
  message of the error.
\<close>

theorem testSSHConnection_by_phrase:
  assumes "process e \<lparr>cmdline = ''ssh -T git@'' @ interp (hostAlias d),
                       timeout = Some 10000, cwd = None\<rparr> w = (result, w0)"
    and "w' = w0\<lparr>launched := launched w @
                 [\<lparr>cmdline = ''ssh -T git@'' @ interp (hostAlias d),
                   timeout = Some 10000, cwd = None\<rparr>]\<rparr>"
  shows "testSSHConnection e (Some d) w =
         Inr (w', [Reply ''connectionTested''
                     (case result of
                        ExecThrew err \<Rightarrow> Failure (message err)
                      | ExecDone err out errout \<Rightarrow>
                          TestResult (includes_str (out @ errout) ''successfully authenticated'')
                            (trim (out @ errout)))])"
proof (cases result)
  case (ExecThrew err)
  with exec_process [OF assms(1)] assms(2) show ?thesis
    by (simp add: testSSHConnection_threw)
next
  case (ExecDone err out errout)
  with exec_process [OF assms(1)] assms(2) show ?thesis
    by (simp add: testSSHConnection_done success_phrase_def)
qed

lemma refused_no_phrase: "\<not> includes_str (refused_text @ NL) ''successfully authenticated''"
  by code_simp

lemma refused_trimmed: "trim (refused_text @ NL) = refused_text"
  by code_simp

theorem testSSHConnection_by_phrase_witness:
  "testSSHConnection
     (sample_env\<lparr>process := ends_with (ExecDone (Some refused) [] (refused_text @ NL))\<rparr>)
     (Some test_payload) empty_world =
   Inr (empty_world\<lparr>launched := [probe]\<rparr>,
        [Reply ''connectionTested'' (TestResult False refused_text)])"
proof -
  let ?e = "sample_env\<lparr>process := ends_with (ExecDone (Some refused) [] (refused_text @ NL))\<rparr>"
  have p: "process ?e \<lparr>cmdline = ''ssh -T git@'' @ interp (hostAlias test_payload),
                       timeout = Some 10000, cwd = None\<rparr> empty_world =
           (ExecDone (Some refused) [] (refused_text @ NL), empty_world)"
    by (simp add: ends_with_def)
  have w: "empty_world\<lparr>launched := [probe]\<rparr> =
           empty_world\<lparr>launched := launched empty_world @
              [\<lparr>cmdline = ''ssh -T git@'' @ interp (hostAlias test_payload),
                timeout = Some 10000, cwd = None\<rparr>]\<rparr>"
    unfolding probe_cmdline by (simp add: empty_world_def)
  from testSSHConnection_by_phrase [OF p w]
  show ?thesis by (simp add: refused_no_phrase refused_trimmed)
qed

text \<open>
  The claim as the spec states it fails on a probe that is killed at the time limit
  after the greeting was printed: the reply is the success, and the attached output is
  the trimmed text, not the text the process wrote.
\<close>

lemma banner_has_phrase: "includes_str (github_banner @ NL) success_phrase"
  by code_simp

lemma banner_trimmed: "trim (github_banner @ NL) = github_banner"
  by code_simp

theorem testSSHConnection_timeout_counterexample:
  "killed timed_out
   \<and> testSSHConnection
         (sample_env\<lparr>process := ends_with (ExecDone (Some timed_out) [] (github_banner @ NL))\<rparr>)
         (Some test_payload) empty_world =
       Inr (empty_world\<lparr>launched := [probe]\<rparr>,
            [Reply ''connectionTested'' (TestResult True github_banner)])
   \<and> github_banner \<noteq> [] @ github_banner @ NL"
proof -
  let ?e = "sample_env\<lparr>process := ends_with (ExecDone (Some timed_out) [] (github_banner @ NL))\<rparr>"
  have "exec ?e probe empty_world =
        (ExecDone (Some timed_out) [] (github_banner @ NL), empty_world\<lparr>launched := [probe]\<rparr>)"
    by (simp add: exec_def ends_with_def empty_world_def)
  then have "testSSHConnection ?e (Some test_payload) empty_world =
       Inr (empty_world\<lparr>launched := [probe]\<rparr>,
            [Reply ''connectionTested''
               (TestResult (includes_str ([] @ github_banner @ NL) success_phrase)
                  (trim ([] @ github_banner @ NL)))])"
    using testSSHConnection_done [of ?e test_payload empty_world "Some timed_out" "[]"
            "github_banner @ NL" "empty_world\<lparr>launched := [probe]\<rparr>"]
    by (simp only: probe_cmdline)
  moreover have "github_banner \<noteq> [] @ github_banner @ NL"
    by (simp add: NL_def)
  moreover have "killed timed_out"
    by (simp add: timed_out_def)
  ultimately show ?thesis
    by (simp add: banner_has_phrase banner_trimmed)
qed

section \<open>generateSSHKey: the key pair\<close>














section \<open>The message handler: failures are posted\<close>
















section \<open>The identity list\<close>

lemma find_has_name: "find (has_name n) xs = None \<longleftrightarrow> n \<notin> set (map name xs)"
  by (induction xs) (auto simp: has_name_def)

lemma addIdentity_stored:
  "fst (addIdentity nb ub eb now se stored) = stored \<or>
   (\<exists>n u m. nb = Some n \<and> n \<notin> set (map name stored) \<and>
      fst (addIdentity nb ub eb now se stored) =
        stored @ [\<lparr>name = n, username = u, email = m, identity_id = now\<rparr>])"
  by (auto simp: addIdentity_def find_has_name split: option.splits)

lemma addIdentity_distinct:
  assumes "distinct (map name stored)"
  shows "distinct (map name (fst (addIdentity nb ub eb now se stored)))"
  using addIdentity_stored [of nb ub eb now se stored] assms by auto

lemma addIdentity_duplicate:
  assumes "n \<in> set (map name stored)"
  shows "fst (addIdentity (Some n) ub eb now se stored) = stored"
  using addIdentity_stored [of "Some n" ub eb now se stored] assms by auto

lemma addIdentity_duplicate_notice:
  assumes "n \<in> set (map name stored)" and "n \<noteq> []" and "u \<noteq> []" and "m \<noteq> []"
  shows "addIdentity (Some n) (Some u) (Some m) now se stored =
         (stored, [ErrorNotice ''Identity with this name already exists''], None)"
  using assms by (simp add: addIdentity_def find_has_name)



text \<open>
  Claim C5. When the name typed into the first input box is the name of a stored
  identity, \<open>addIdentity\<close> leaves the stored list as it is, whatever the other
  answers; with a user name and an email typed in as well, it shows the error
  \<open>Identity with this name already exists\<close>. Every call of \<open>addIdentity\<close>, with any
  answers, keeps the names of the stored identities distinct.
\<close>

theorem addIdentity_rejects_duplicate:
  assumes "n \<in> set (map name stored)"
  shows "fst (addIdentity (Some n) ub eb now se stored) = stored
       \<and> (n \<noteq> [] \<and> u \<noteq> [] \<and> m \<noteq> [] \<longrightarrow>
            addIdentity (Some n) (Some u) (Some m) now se stored =
            (stored, [ErrorNotice ''Identity with this name already exists''], None))
       \<and> (distinct (map name stored) \<longrightarrow>
            distinct (map name (fst (addIdentity nb2 ub2 eb2 now2 se2 stored))))"
  using assms
  by (simp add: addIdentity_duplicate addIdentity_duplicate_notice addIdentity_distinct)

theorem addIdentity_rejects_duplicate_witness:
  "addIdentity (Some ''Work'') (Some ''bob'') (Some ''bob@b.com'') 1700000000002 None
     [work_identity, home_identity] =
   ([work_identity, home_identity], [ErrorNotice ''Identity with this name already exists''], None)
   \<and> distinct (map name (fst (addIdentity (Some ''Play'') (Some ''bob'') (Some ''bob@b.com'')
                                  1700000000002 None [work_identity, home_identity])))"
proof -
  have a: "''Work'' \<in> set (map name [work_identity, home_identity])"
    by (simp add: work_identity_def)
  have d: "distinct (map name [work_identity, home_identity])"
    by (simp add: work_identity_def home_identity_def)
  have ne: "''Work'' \<noteq> [] \<and> ''bob'' \<noteq> [] \<and> ''bob@b.com'' \<noteq> []" by simp
  from addIdentity_rejects_duplicate [OF a, of _ _ _ _ "''bob''" "''bob@b.com''"]
  have "addIdentity (Some ''Work'') (Some ''bob'') (Some ''bob@b.com'') 1700000000002 None
     [work_identity, home_identity] =
     ([work_identity, home_identity], [ErrorNotice ''Identity with this name already exists''], None)"
    and "distinct (map name (fst (addIdentity (Some ''Play'') (Some ''bob'') (Some ''bob@b.com'')
                                  1700000000002 None [work_identity, home_identity])))"
    using ne d by blast+
  then show ?thesis by blast
qed

lemma filter_other_names:
  assumes "n \<notin> set (map name xs)"
  shows "filter (\<lambda>i. name i \<noteq> n) xs = xs"
  using assms by (induction xs) auto

lemma filter_removes_one:
  assumes "distinct (map name xs)" and "n \<in> set (map name xs)"
  shows "\<exists>pre i post. xs = pre @ i # post \<and> name i = n \<and>
           filter (\<lambda>i. name i \<noteq> n) xs = pre @ post"
proof -
  from assms(2) obtain i where "i \<in> set xs" and ni: "name i = n" by auto
  then obtain pre post where xs: "xs = pre @ i # post" by (auto simp: in_set_conv_decomp)
  with assms(1) ni have "n \<notin> set (map name pre)" and "n \<notin> set (map name post)"
    by auto
  then have "filter (\<lambda>i. name i \<noteq> n) (pre @ i # post) = pre @ post"
    using ni by (simp add: filter_other_names)
  with xs ni show ?thesis by blast
qed

lemma deleteIdentity_filter:
  assumes "identityData_name a = Some n" and "n \<noteq> []"
  shows "deleteIdentity (Some a) (Some ''Delete'') None stored =
         (filter (\<lambda>i. name i \<noteq> n) stored, [InfoNotice (''Deleted identity: '' @ n)], None)"
  using assms by (simp add: deleteIdentity_def)

lemma deleteIdentity_label_filter:
  assumes "arg_label a = Some n"
  shows "deleteIdentity_label (Some a) (Some ''Delete'') None stored =
         (filter (\<lambda>i. name i \<noteq> n) stored, [InfoNotice (''Deleted identity: '' @ n)], None)"
  using assms by (simp add: deleteIdentity_label_def interp_def)

text \<open>
  Claim C6. A confirmed deletion of the name \<open>n\<close> whose save succeeds, in either
  version of \<open>deleteIdentity\<close>, stores the list without the identities named \<open>n\<close>.
  When no stored identity has that name the list is unchanged. When one has it, the
  names being distinct, the list is one shorter: it is the old list without that one
  element, the others in their order.
\<close>

theorem deleteIdentity_removes_one:
  assumes "identityData_name a = Some n" and "n \<noteq> []" and "arg_label b = Some n"
    and "deleted = fst (deleteIdentity (Some a) (Some ''Delete'') None stored)"
  shows "deleted = fst (deleteIdentity_label (Some b) (Some ''Delete'') None stored)
       \<and> deleted = filter (\<lambda>i. name i \<noteq> n) stored
       \<and> (n \<notin> set (map name stored) \<longrightarrow> deleted = stored)
       \<and> (n \<in> set (map name stored) \<and> distinct (map name stored) \<longrightarrow>
            Suc (length deleted) = length stored \<and>
            (\<exists>pre i post. stored = pre @ i # post \<and> name i = n \<and> deleted = pre @ post))"
proof -
  have f: "deleted = filter (\<lambda>i. name i \<noteq> n) stored"
    using assms(1,2,4) by (simp add: deleteIdentity_filter)
  have l: "fst (deleteIdentity_label (Some b) (Some ''Delete'') None stored) =
           filter (\<lambda>i. name i \<noteq> n) stored"
    using assms(3) by (simp add: deleteIdentity_label_filter)
  have one: "Suc (length deleted) = length stored \<and>
            (\<exists>pre i post. stored = pre @ i # post \<and> name i = n \<and> deleted = pre @ post)"
    if "n \<in> set (map name stored) \<and> distinct (map name stored)"
  proof -
    from that filter_removes_one [of stored n]
    obtain pre i post where "stored = pre @ i # post" "name i = n"
      "filter (\<lambda>i. name i \<noteq> n) stored = pre @ post" by blast
    with f show ?thesis by auto
  qed
  from f l one show ?thesis
    by (auto simp: filter_other_names)
qed

theorem deleteIdentity_removes_one_witness:
  "fst (deleteIdentity (Some work_item) (Some ''Delete'') None [work_identity, home_identity]) =
     [home_identity]
   \<and> fst (deleteIdentity_label (Some work_item) (Some ''Delete'') None
            [work_identity, home_identity]) = [home_identity]
   \<and> fst (deleteIdentity (Some play_item) (Some ''Delete'') None [work_identity, home_identity]) =
     [work_identity, home_identity]"
proof -
  have w: "identityData_name work_item = Some ''Work''" "arg_label work_item = Some ''Work''"
    by (simp_all add: identityData_name_def work_item_def)
  have p: "identityData_name play_item = Some ''Play''" "arg_label play_item = Some ''Play''"
    by (simp_all add: identityData_name_def play_item_def)
  have ne: "''Work'' \<noteq> []" "''Play'' \<noteq> []" by simp_all
  have names: "map name [work_identity, home_identity] = [''Work'', ''Home'']"
    by (simp add: work_identity_def home_identity_def)
  note t = deleteIdentity_removes_one [OF w(1) ne(1) w(2) refl, of "[work_identity, home_identity]"]
  have fw: "filter (\<lambda>i. name i \<noteq> ''Work'') [work_identity, home_identity] = [home_identity]"
    by (simp add: work_identity_def home_identity_def)
  have a: "fst (deleteIdentity (Some work_item) (Some ''Delete'') None
               [work_identity, home_identity]) = [home_identity]"
    using t [THEN conjunct2, THEN conjunct1] fw by simp
  have b: "fst (deleteIdentity_label (Some work_item) (Some ''Delete'') None
               [work_identity, home_identity]) = [home_identity]"
    using t [THEN conjunct1] a by simp
  note a b
  moreover
  have "fst (deleteIdentity (Some play_item) (Some ''Delete'') None
               [work_identity, home_identity]) = [work_identity, home_identity]"
    using deleteIdentity_removes_one [OF p(1) ne(2) p(2) refl, of "[work_identity, home_identity]",
            THEN conjunct2, THEN conjunct2, THEN conjunct1]
    by (simp add: work_identity_def home_identity_def)
  ultimately show ?thesis by blast
qed

section \<open>The Git identity of the workspace\<close>
























end
